theory Spec2Isabelle
  imports Complex_Main "HOL-Library.AList" "HOL-Library.Product_Lexorder" "HOL-Library.Sublist"
begin

section \<open>The pipocas.tv provider\<close>

text \<open>
  A shallow embedding of \<^verbatim>\<open>custom_libs/subliminal_patch/providers/pipocas.py\<close>.
  Python \<^verbatim>\<open>str\<close> and \<^verbatim>\<open>bytes\<close> values are character lists; \<^verbatim>\<open>None\<close> is
  \<open>None\<close> of an option type; an exception is the \<open>Inl\<close> of a sum. The provider's
  attributes, the \<^verbatim>\<open>Session\<close> objects it creates and the requests it sends are
  fields of one state record that every method takes and returns.
\<close>

subsection \<open>Strings\<close>

type_synonym bytes = string

text \<open>\<^verbatim>\<open>s.startswith(p)\<close>, \<^verbatim>\<open>s.endswith(p)\<close> and \<^verbatim>\<open>n in s\<close>.\<close>

fun startswith :: "string \<Rightarrow> string \<Rightarrow> bool" where
  "startswith s [] = True"
| "startswith [] (p # ps) = False"
| "startswith (c # s) (p # ps) = (c = p \<and> startswith s ps)"

definition endswith :: "string \<Rightarrow> string \<Rightarrow> bool" where
  "endswith s p = startswith (rev s) (rev p)"

fun py_in :: "string \<Rightarrow> string \<Rightarrow> bool" where
  "py_in n [] = (n = [])"
| "py_in n (c # h) = (startswith (c # h) n \<or> py_in n h)"

text \<open>
  \<^verbatim>\<open>s.lower()\<close> on the letters A to Z; every other character is left as it is
  (the case mapping of characters outside ASCII is not modelled).
\<close>

definition lower_char :: "char \<Rightarrow> char" where
  "lower_char c =
     (case map_of (zip ''ABCDEFGHIJKLMNOPQRSTUVWXYZ'' ''abcdefghijklmnopqrstuvwxyz'') c of
        None \<Rightarrow> c
      | Some l \<Rightarrow> l)"

definition lower :: "string \<Rightarrow> string" where
  "lower s = map lower_char s"

text \<open>\<^verbatim>\<open>str(n)\<close> and the format \<^verbatim>\<open>{n:02d}\<close> of an integer.\<close>

definition digit_char :: "nat \<Rightarrow> char" where
  "digit_char d = ''0123456789'' ! d"

fun str_nat :: "nat \<Rightarrow> string" where
  "str_nat n = (if n < 10 then [digit_char n] else str_nat (n div 10) @ [digit_char (n mod 10)])"

declare str_nat.simps [simp del]

definition str :: "int \<Rightarrow> string" where
  "str n = (if n < 0 then CHR ''-'' # str_nat (nat (- n)) else str_nat (nat n))"

definition fmt02d :: "int \<Rightarrow> string" where
  "fmt02d n = (let s = str n in replicate (2 - length s) CHR ''0'' @ s)"

text \<open>\<^verbatim>\<open>os.path.basename\<close> and \<^verbatim>\<open>os.path.splitext\<close> with the separator \<^verbatim>\<open>/\<close>.\<close>

definition basename :: "string \<Rightarrow> string" where
  "basename p = rev (takeWhile (\<lambda>c. c \<noteq> CHR ''/'') (rev p))"

definition splitext :: "string \<Rightarrow> string \<times> string" where
  "splitext p =
     (let ext = rev (takeWhile (\<lambda>c. c \<noteq> CHR ''.'') (rev p));
          root = take (length p - length ext - 1) p;
          fname = rev (takeWhile (\<lambda>c. c \<noteq> CHR ''/'') (rev root))
      in if CHR ''.'' \<in> set p \<and> CHR ''/'' \<notin> set ext \<and> (\<exists>c \<in> set fname. c \<noteq> CHR ''.'')
         then (root, CHR ''.'' # ext) else (p, []))"

definition rstrip :: "char \<Rightarrow> string \<Rightarrow> string" where
  "rstrip ch s = rev (dropWhile (\<lambda>c. c = ch) (rev s))"

text \<open>Truth values of optional strings and integers: \<^verbatim>\<open>None\<close>, \<^verbatim>\<open>""\<close> and \<^verbatim>\<open>0\<close> are false.\<close>

fun truthy :: "string option \<Rightarrow> bool" where
  "truthy None = False"
| "truthy (Some s) = (s \<noteq> [])"

fun truthy_int :: "int option \<Rightarrow> bool" where
  "truthy_int None = False"
| "truthy_int (Some n) = (n \<noteq> 0)"

subsection \<open>Constants\<close>

definition SITE :: string where "SITE = ''https://pipocas.tv''"
definition LOGIN_URL :: string where "LOGIN_URL = SITE @ ''/login''"
definition SEARCH_URL :: string where "SEARCH_URL = SITE @ ''/legendas''"

definition DOWNLOAD_URL :: "string \<Rightarrow> string" where
  "DOWNLOAD_URL ident = SITE @ ''/legendas/download/'' @ ident"

definition SEARCH_DELAY :: nat where "SEARCH_DELAY = 5"

definition PIPOCAS_LANGUAGE_MAP :: "((string \<times> string option) \<times> string) list" where
  "PIPOCAS_LANGUAGE_MAP =
     [((''por'', None), ''portugues''),
      ((''por'', Some ''PT''), ''portugues''),
      ((''por'', Some ''BR''), ''brasileiro''),
      ((''eng'', None), ''ingles''),
      ((''eng'', Some ''US''), ''ingles''),
      ((''eng'', Some ''GB''), ''ingles''),
      ((''spa'', None), ''espanhol''),
      ((''spa'', Some ''ES''), ''espanhol''),
      ((''spa'', Some ''MX''), ''espanhol'')]"

subsection \<open>Data\<close>

record language =
  alpha3 :: string
  country :: "string option"

datatype video =
    Episode (name: "string option") (series: "string option") (season: "int option")
            (episode: "int option") (year: "int option")
  | Movie (name: "string option") (title: "string option") (year: "int option")


datatype error =
    ConfigurationError | AuthenticationError | ServiceUnavailable
  | HTTPError | RequestException | AttributeError

record subtitle =
  language :: language
  video :: video
  sub_id :: string
  release :: string
  hits :: int
  uploader :: string
  user_score :: int
  page_link :: string
  content :: "bytes option"

definition get_pipocas_language :: "language \<Rightarrow> string option" where
  "get_pipocas_language l =
     (case map_of PIPOCAS_LANGUAGE_MAP (alpha3 l, country l) of
        Some v \<Rightarrow> Some v
      | None \<Rightarrow> map_of PIPOCAS_LANGUAGE_MAP (alpha3 l, None))"

subsection \<open>Libraries\<close>

text \<open>
  What the module takes from its libraries is a parameter of the model: one field for
  each library call the source makes, named after the call. A library call returns,
  except where the source handles its exception: \<^verbatim>\<open>guessit\<close>, \<^verbatim>\<open>int\<close> and the
  requests of the session.
\<close>

datatype gval = GInt int | GStr string | GList "gval list"

type_synonym guess = "(string \<times> gval) list"

record archive =
  namelist :: "string list"
  read :: "string \<Rightarrow> bytes"

record libs =
  TOKEN_RE_search :: "string \<Rightarrow> string option"
    \<comment> \<open>\<^verbatim>\<open>TOKEN_RE.search(text)\<close>: \<open>None\<close>, or group 1 of the match\<close>
  soup_result_links :: "string \<Rightarrow> string list"
    \<comment> \<open>the \<^verbatim>\<open>href\<close> of each \<^verbatim>\<open>soup.find_all("a", href=True, class_="text-dark no-decoration")\<close>\<close>
  soup_title_span :: "string \<Rightarrow> string option"
    \<comment> \<open>the text of the \<^verbatim>\<open>span.font-normal\<close> in the first \<^verbatim>\<open>h3.title\<close>, when both exist\<close>
  soup_a_hrefs :: "string \<Rightarrow> string list"
    \<comment> \<open>the \<^verbatim>\<open>href\<close> of each \<^verbatim>\<open>soup.find_all("a", href=True)\<close>\<close>
  download_re_search :: "string \<Rightarrow> string option"
    \<comment> \<open>group 1 of \<^verbatim>\<open>re.search(r"/legendas/download/([^\"']+)", href)\<close>\<close>
  soup_hits_div :: "string \<Rightarrow> string option"
    \<comment> \<open>the text of the \<^verbatim>\<open>div\<close> in the first \<^verbatim>\<open>span\<close> of class \<^verbatim>\<open>hits hits-pd\<close>\<close>
  soup_color_span :: "string \<Rightarrow> string option"
    \<comment> \<open>the text of the first \<^verbatim>\<open>span\<close> whose style sets a colour\<close>
  soup_rating_h2 :: "string \<Rightarrow> string option"
    \<comment> \<open>the text of the first \<^verbatim>\<open>h2\<close> of class \<^verbatim>\<open>mt-3 text-center\<close>\<close>
  rating_re_search :: "string \<Rightarrow> string option"
    \<comment> \<open>group 1 of \<^verbatim>\<open>re.search(r"(\d+)\s*/\s*\d+", text)\<close>\<close>
  py_int :: "string \<Rightarrow> int option"
    \<comment> \<open>\<^verbatim>\<open>int(s)\<close>; \<open>None\<close> when it raises \<^verbatim>\<open>ValueError\<close>\<close>
  strip :: "string \<Rightarrow> string"
  guessit :: "string \<Rightarrow> string option \<Rightarrow> guess option"
    \<comment> \<open>\<^verbatim>\<open>guessit(s)\<close> or \<^verbatim>\<open>guessit(s, {"type": t})\<close>; \<open>None\<close> when it raises\<close>
  guess_matches :: "video \<Rightarrow> guess \<Rightarrow> string list"
    \<comment> \<open>the elements of the set that \<^verbatim>\<open>guess_matches(video, guessed)\<close> returns\<close>
  get_scores :: "video \<Rightarrow> (string \<times> int) list"
  SUBTITLE_EXTENSIONS :: "string list"
  RarFile :: "bytes \<Rightarrow> archive"
  ZipFile :: "bytes \<Rightarrow> archive"
  fix_line_ending :: "bytes \<Rightarrow> bytes"
  normalize :: "subtitle \<Rightarrow> subtitle"
  default_headers :: "(string \<times> string) list"
    \<comment> \<open>the headers of a new \<^verbatim>\<open>Session()\<close>\<close>
  SZ_USER_AGENT :: "string option"
    \<comment> \<open>\<^verbatim>\<open>os.environ.get("SZ_USER_AGENT")\<close>\<close>

subsection \<open>Requests and the provider's state\<close>

datatype pyval = PStr string | PInt int | PNone

datatype request =
    GET string "(string \<times> pyval) list"
  | POST string "(string \<times> pyval) list"

record response =
  status_code :: nat
  resp_text :: string
  resp_content :: bytes

text \<open>
  The network answers the \<open>n\<close>-th request of a run, sent through the session \<open>sid\<close>:
  \<open>None\<close> when \<^verbatim>\<open>requests\<close> raises (no connection, a timeout), a response otherwise.
  A theorem for every network covers every server, whatever it remembers.
\<close>

type_synonym network = "nat \<Rightarrow> nat \<Rightarrow> request \<Rightarrow> response option"

record session_obj =
  headers :: "(string \<times> string) list"
  closed :: bool

record state =
  username :: "string option"
  password :: "string option"
  session :: "nat option"
  sessions :: "session_obj list"
  log :: "(nat \<times> request) list"
  slept :: nat

text \<open>
  \<open>username\<close>, \<open>password\<close> and \<open>session\<close> are the attributes of the provider;
  \<open>session\<close> is a reference into \<open>sessions\<close>, the \<^verbatim>\<open>Session\<close> objects created so
  far. \<open>log\<close> lists the requests sent, the oldest first, each with the session that
  sent it, and \<open>slept\<close> adds up the seconds slept.
\<close>

definition attributes :: "state \<Rightarrow> string option \<times> string option \<times> nat option" where
  "attributes s = (username s, password s, session s)"

definition raise_for_status :: "response \<Rightarrow> bool" where
  "raise_for_status res = (400 \<le> status_code res \<and> status_code res < 600)"

text \<open>
  \<^verbatim>\<open>self.session.get(...)\<close> and \<^verbatim>\<open>self.session.post(...)\<close>: without a session the
  attribute lookup on \<^verbatim>\<open>None\<close> raises and nothing is sent.
\<close>

definition session_request :: "network \<Rightarrow> request \<Rightarrow> state \<Rightarrow> (error + response) \<times> state" where
  "session_request net rq s =
     (case session s of
        None \<Rightarrow> (Inl AttributeError, s)
      | Some sid \<Rightarrow>
          (case net (length (log s)) sid rq of
             None \<Rightarrow> (Inl RequestException, s\<lparr>log := log s @ [(sid, rq)]\<rparr>)
           | Some res \<Rightarrow> (Inr res, s\<lparr>log := log s @ [(sid, rq)]\<rparr>)))"

subsection \<open>Construction, login and shutdown\<close>

definition init :: "string option \<Rightarrow> string option \<Rightarrow> error + state" where
  "init u p =
     (if (truthy u \<or> truthy p) \<and> \<not> (truthy u \<and> truthy p) then Inl ConfigurationError
      else Inr \<lparr>username = u, password = p, session = None, sessions = [], log = [], slept = 0\<rparr>)"

definition provider_headers :: "libs \<Rightarrow> (string \<times> string) list" where
  "provider_headers L =
     [(''User-Agent'', (case SZ_USER_AGENT L of None \<Rightarrow> ''Sub-Zero/2'' | Some a \<Rightarrow> a)),
      (''Accept'', ''text/html,application/xhtml+xml,application/xml;q=0.9,image/webp,*/*;q=0.8''),
      (''Origin'', SITE),
      (''Referer'', SITE),
      (''Connection'', ''keep-alive'')]"

text \<open>\<^verbatim>\<open>d.update(e)\<close> on dictionaries kept as association lists.\<close>

definition dict_update :: "('k \<times> 'v) list \<Rightarrow> ('k \<times> 'v) list \<Rightarrow> ('k \<times> 'v) list" where
  "dict_update d e = fold (\<lambda>(k, v) acc. AList.update k v acc) e d"

definition opt_val :: "string option \<Rightarrow> pyval" where
  "opt_val x = (case x of None \<Rightarrow> PNone | Some v \<Rightarrow> PStr v)"

definition CRIA :: string where "CRIA = ''Cria uma conta''"

definition payload :: "state \<Rightarrow> string \<Rightarrow> (string \<times> pyval) list" where
  "payload s token =
     [(''username'', opt_val (username s)),
      (''password'', opt_val (password s)),
      (''_token'', PStr token)]"

definition login :: "libs \<Rightarrow> network \<Rightarrow> state \<Rightarrow> (error + unit) \<times> state" where
  "login L net s =
     (case session_request net (GET LOGIN_URL []) s of
        (Inl e, s1) \<Rightarrow> (Inl e, s1)
      | (Inr res, s1) \<Rightarrow>
          if raise_for_status res then (Inl HTTPError, s1)
          else
            (case TOKEN_RE_search L (resp_text res) of
               None \<Rightarrow> (Inl ServiceUnavailable, s1)
             | Some token \<Rightarrow>
                 (case session_request net (POST LOGIN_URL (payload s1 token)) s1 of
                    (Inl e, s2) \<Rightarrow> (Inl e, s2)
                  | (Inr res2, s2) \<Rightarrow>
                      if raise_for_status res2 then (Inl HTTPError, s2)
                      else if py_in CRIA (resp_text res2) then (Inl AuthenticationError, s2)
                      else (Inr (), s2))))"

definition initialize :: "libs \<Rightarrow> network \<Rightarrow> state \<Rightarrow> (error + unit) \<times> state" where
  "initialize L net s =
     (if \<not> truthy (username s) \<or> \<not> truthy (password s) then (Inl ConfigurationError, s)
      else
        login L net
          (s\<lparr>session := Some (length (sessions s)),
             sessions := sessions s @
               [\<lparr>headers = dict_update (default_headers L) (provider_headers L),
                 closed = False\<rparr>]\<rparr>))"


subsection \<open>Subtitles and matching\<close>

text \<open>\<^verbatim>\<open>x or d\<close> for the arguments of the constructor.\<close>

definition or_str :: "string option \<Rightarrow> string \<Rightarrow> string" where
  "or_str x d = (case x of None \<Rightarrow> d | Some v \<Rightarrow> if v = [] then d else v)"

definition or_int :: "int option \<Rightarrow> int \<Rightarrow> int" where
  "or_int x d = (case x of None \<Rightarrow> d | Some v \<Rightarrow> if v = 0 then d else v)"

definition PipocasSubtitle ::
  "language \<Rightarrow> video \<Rightarrow> string \<Rightarrow> string option \<Rightarrow> int option \<Rightarrow> string option \<Rightarrow> int option
     \<Rightarrow> subtitle" where
  "PipocasSubtitle lang v ident rel h upl score_stars =
     \<lparr>language = lang, video = v, sub_id = ident, release = or_str rel [],
      hits = or_int h 0, uploader = or_str upl ''pipocas-bot'',
      user_score = or_int score_stars 0, page_link = DOWNLOAD_URL ident, content = None\<rparr>"




subsection \<open>Search\<close>

fun build_search_query :: "video \<Rightarrow> string" where
  "build_search_query (Episode n sr se ep y) =
     (if truthy sr \<and> truthy_int se \<and> truthy_int ep
      then the sr @ '' S'' @ fmt02d (the se) @ ''E'' @ fmt02d (the ep)
      else if truthy sr then the sr
      else if truthy n then fst (splitext (basename (the n)))
      else [])"
| "build_search_query (Movie n t y) =
     (if truthy t then the t
      else if truthy n then fst (splitext (basename (the n)))
      else [])"

text \<open>
  \<^verbatim>\<open>round\<close> of Python 3 rounds a half to the even neighbour. The source computes in
  binary floating point; the model computes with rationals.
\<close>

definition py_round :: "rat \<Rightarrow> int" where
  "py_round x =
     (let f = \<lfloor>x\<rfloor>; d = x - of_int f
      in if d < 1 / 2 then f else if 1 / 2 < d then f + 1 else if even f then f else f + 1)"

definition hit_factor :: "int \<Rightarrow> int \<Rightarrow> rat" where
  "hit_factor rating_val h = (if rating_val = 0 then 0 else min (of_int h / 100) 5)"

definition score_stars :: "int \<Rightarrow> int \<Rightarrow> int" where
  "score_stars rating_val h = py_round ((of_int rating_val + hit_factor rating_val h) / 2)"

definition parse_release :: "libs \<Rightarrow> string \<Rightarrow> string" where
  "parse_release L page =
     (case soup_title_span L page of
        None \<Rightarrow> []
      | Some t \<Rightarrow> if t = [] then [] else strip L t)"

fun first_download_id :: "libs \<Rightarrow> string list \<Rightarrow> string option" where
  "first_download_id L [] = None"
| "first_download_id L (h # hs) =
     (case download_re_search L h of None \<Rightarrow> first_download_id L hs | Some m \<Rightarrow> Some m)"

definition parse_hits :: "libs \<Rightarrow> string \<Rightarrow> int" where
  "parse_hits L page =
     (case soup_hits_div L page of
        None \<Rightarrow> 0
      | Some t \<Rightarrow> if t = [] then 0 else (case py_int L (strip L t) of None \<Rightarrow> 0 | Some n \<Rightarrow> n))"

definition parse_uploader :: "libs \<Rightarrow> string \<Rightarrow> string option" where
  "parse_uploader L page =
     (case soup_color_span L page of
        None \<Rightarrow> None
      | Some t \<Rightarrow> if t = [] then None else Some (strip L t))"

definition parse_rating :: "libs \<Rightarrow> string \<Rightarrow> int" where
  "parse_rating L page =
     (case soup_rating_h2 L page of
        None \<Rightarrow> 0
      | Some t \<Rightarrow>
          if t = [] then 0
          else
            (case rating_re_search L t of
               None \<Rightarrow> 0
             | Some m \<Rightarrow> (case py_int L m of None \<Rightarrow> 0 | Some n \<Rightarrow> n)))"

definition parse_details_page ::
  "libs \<Rightarrow> network \<Rightarrow> video \<Rightarrow> string \<Rightarrow> language \<Rightarrow> state \<Rightarrow> (error + subtitle option) \<times> state"
  where
  "parse_details_page L net v url lang s =
     (case session_request net (GET url []) s of
        (Inl e, s1) \<Rightarrow> (Inl e, s1)
      | (Inr res, s1) \<Rightarrow>
          if raise_for_status res then (Inl HTTPError, s1)
          else
            (let page = resp_text res;
                 rel = parse_release L page;
                 ident = first_download_id L (soup_a_hrefs L page)
             in if \<not> truthy ident then (Inr None, s1)
                else
                  (let h = parse_hits L page;
                       upl = parse_uploader L page;
                       rating_val = parse_rating L page
                   in (Inr (Some (PipocasSubtitle lang v (the ident) (Some rel) (Some h) upl
                                    (Some (score_stars rating_val h)))), s1))))"

definition details_url :: "string \<Rightarrow> string" where
  "details_url href = (if startswith href ''http'' then href else rstrip CHR ''/'' SITE @ href)"

fun details_loop ::
  "libs \<Rightarrow> network \<Rightarrow> video \<Rightarrow> language \<Rightarrow> string list \<Rightarrow> subtitle list \<Rightarrow> state
     \<Rightarrow> (error + subtitle list) \<times> state" where
  "details_loop L net v lang [] results s = (Inr results, s)"
| "details_loop L net v lang (href # hs) results s =
     (if \<not> py_in ''/legendas/info/'' href then details_loop L net v lang hs results s
      else
        (case parse_details_page L net v (details_url href) lang s of
           (Inl e, s1) \<Rightarrow> (Inl e, s1)
         | (Inr None, s1) \<Rightarrow> details_loop L net v lang hs results s1
         | (Inr (Some sub), s1) \<Rightarrow> details_loop L net v lang hs (results @ [sub]) s1))"

definition search_params :: "string \<Rightarrow> string \<Rightarrow> (string \<times> pyval) list" where
  "search_params site_lang query =
     [(''t'', PStr ''rel''), (''l'', PStr site_lang), (''page'', PInt 1), (''s'', PStr query)]"

definition search_language ::
  "libs \<Rightarrow> network \<Rightarrow> video \<Rightarrow> language \<Rightarrow> state \<Rightarrow> (error + subtitle list) \<times> state" where
  "search_language L net v lang s =
     (if \<not> truthy (get_pipocas_language lang) then (Inr [], s)
      else
        (let site_lang = the (get_pipocas_language lang);
             query = build_search_query v
         in if query = [] then (Inr [], s)
            else
              (case session_request net (GET SEARCH_URL (search_params site_lang query))
                      (s\<lparr>slept := slept s + SEARCH_DELAY\<rparr>) of
                 (Inl e, s1) \<Rightarrow> (Inl e, s1)
               | (Inr res, s1) \<Rightarrow>
                   if raise_for_status res then (Inl HTTPError, s1)
                   else if py_in CRIA (resp_text res) then (Inl AuthenticationError, s1)
                   else details_loop L net v lang (soup_result_links L (resp_text res)) [] s1)))"

text \<open>
  \<^verbatim>\<open>list.sort(key=..., reverse=True)\<close>: a stable sort in which equal keys keep their
  order.
\<close>

definition sort_key_sub :: "subtitle \<Rightarrow> int \<times> int" where
  "sort_key_sub sub = (user_score sub, hits sub)"

definition sort_reverse :: "('a \<Rightarrow> 'k::linorder) \<Rightarrow> 'a list \<Rightarrow> 'a list" where
  "sort_reverse k xs = rev (sort_key k (rev xs))"

definition reraised :: "error \<Rightarrow> bool" where
  "reraised e = (e = HTTPError \<or> e = RequestException \<or> e = AuthenticationError \<or> e = ServiceUnavailable)"

fun languages_loop ::
  "libs \<Rightarrow> network \<Rightarrow> video \<Rightarrow> language list \<Rightarrow> subtitle list \<Rightarrow> state
     \<Rightarrow> (error + subtitle list) \<times> state" where
  "languages_loop L net v [] all_subs s = (Inr all_subs, s)"
| "languages_loop L net v (lang # ls) all_subs s =
     (case search_language L net v lang s of
        (Inr subs, s1) \<Rightarrow> languages_loop L net v ls (all_subs @ subs) s1
      | (Inl e, s1) \<Rightarrow>
          if reraised e then (Inl e, s1) else languages_loop L net v ls all_subs s1)"

definition list_subtitles ::
  "libs \<Rightarrow> network \<Rightarrow> video \<Rightarrow> language list \<Rightarrow> state \<Rightarrow> (error + subtitle list) \<times> state" where
  "list_subtitles L net v languages s =
     (case languages_loop L net v languages [] s of
        (Inl e, s1) \<Rightarrow> (Inl e, s1)
      | (Inr all_subs, s1) \<Rightarrow> (Inr (sort_reverse sort_key_sub all_subs), s1))"

subsection \<open>Download\<close>

definition allowed_exts :: "libs \<Rightarrow> string list" where
  "allowed_exts L = remove1 ''.txt'' (SUBTITLE_EXTENSIONS L)"

text \<open>\<^verbatim>\<open>s.endswith(t)\<close> for a tuple \<^verbatim>\<open>t\<close> of suffixes.\<close>

definition endswith_any :: "string \<Rightarrow> string list \<Rightarrow> bool" where
  "endswith_any s exts = (\<exists>e \<in> set exts. endswith s e)"

definition guess_name :: "libs \<Rightarrow> string \<Rightarrow> guess" where
  "guess_name L nm = (case guessit L (basename nm) None of None \<Rightarrow> [] | Some g \<Rightarrow> g)"

text \<open>\<^verbatim>\<open>g != x\<close> for a guessed value \<^verbatim>\<open>g\<close> that is not \<^verbatim>\<open>None\<close>.\<close>

definition py_ne :: "gval \<Rightarrow> int option \<Rightarrow> bool" where
  "py_ne g x = (case x of None \<Rightarrow> True | Some n \<Rightarrow> g \<noteq> GInt n)"

fun episode_mismatch :: "video \<Rightarrow> guess \<Rightarrow> bool" where
  "episode_mismatch (Episode n sr se ep y) guessed =
     (case map_of guessed ''season'' of
        None \<Rightarrow> False
      | Some gs \<Rightarrow>
          (case map_of guessed ''episode'' of
             None \<Rightarrow> False
           | Some ge \<Rightarrow> py_ne gs se \<or> py_ne ge ep))"
| "episode_mismatch (Movie n t y) guessed = False"

definition score_of :: "(string \<times> int) list \<Rightarrow> string \<Rightarrow> int" where
  "score_of scores m = (case map_of scores m of None \<Rightarrow> 0 | Some x \<Rightarrow> x)"

definition entry_score :: "libs \<Rightarrow> video \<Rightarrow> string \<Rightarrow> int" where
  "entry_score L v nm =
     sum_list (map (score_of (get_scores L v)) (remdups (guess_matches L v (guess_name L nm))))"

fun best_loop :: "libs \<Rightarrow> video \<Rightarrow> string list \<Rightarrow> string option \<Rightarrow> int \<Rightarrow> string option \<times> int" where
  "best_loop L v [] best_name best_score = (best_name, best_score)"
| "best_loop L v (nm # ns) best_name best_score =
     (if startswith (basename nm) ''.'' then best_loop L v ns best_name best_score
      else if \<not> endswith_any (lower nm) (allowed_exts L) then best_loop L v ns best_name best_score
      else if episode_mismatch v (guess_name L nm) then best_loop L v ns best_name best_score
      else if best_score < entry_score L v nm then best_loop L v ns (Some nm) (entry_score L v nm)
      else best_loop L v ns best_name best_score)"

definition extract_best_from_archive :: "libs \<Rightarrow> archive \<Rightarrow> subtitle \<Rightarrow> bytes option" where
  "extract_best_from_archive L a sub =
     (case best_loop L (video sub) (namelist a) None (- 1) of
        (best_name, best_score) \<Rightarrow>
          (case best_name of
             None \<Rightarrow> None
           | Some nm \<Rightarrow> if best_score \<le> 0 then None else Some (read a nm)))"

definition from_archive :: "libs \<Rightarrow> archive \<Rightarrow> subtitle \<Rightarrow> state \<Rightarrow> (error + subtitle) \<times> state" where
  "from_archive L a sub s =
     (case extract_best_from_archive L a sub of
        None \<Rightarrow> (Inl ServiceUnavailable, s)
      | Some content_bytes \<Rightarrow>
          if content_bytes = [] then (Inl ServiceUnavailable, s)
          else (Inr (normalize L (sub\<lparr>content := Some (fix_line_ending L content_bytes)\<rparr>)), s))"

text \<open>
  The body of \<^verbatim>\<open>download_subtitle\<close>. The wrapper \<^verbatim>\<open>reinitialize_on_error\<close> around it
  comes from the providers package and is not part of this module.
\<close>

definition download_subtitle :: "libs \<Rightarrow> network \<Rightarrow> subtitle \<Rightarrow> state \<Rightarrow> (error + subtitle) \<times> state" where
  "download_subtitle L net sub s =
     (case session_request net (GET (page_link sub) []) s of
        (Inl e, s1) \<Rightarrow> (Inl e, s1)
      | (Inr res, s1) \<Rightarrow>
          if raise_for_status res then (Inl HTTPError, s1)
          else if py_in CRIA (resp_text res) then (Inl AuthenticationError, s1)
          else if resp_content res = [] then (Inl ServiceUnavailable, s1)
          else if startswith (take 4 (resp_content res)) ''Rar!''
            then from_archive L (RarFile L (resp_content res)) sub s1
          else if startswith (take 4 (resp_content res)) ''PK''
            then from_archive L (ZipFile L (resp_content res)) sub s1
          else (Inr (normalize L (sub\<lparr>content := Some (fix_line_ending L (resp_content res))\<rparr>)), s1))"

subsection \<open>The requests a search is expected to send\<close>



subsection \<open>The candidates of an archive\<close>

text \<open>
  An entry is a candidate when its base name does not start with a dot, its name ends
  with a subtitle extension other than \<^verbatim>\<open>.txt\<close>, and, for an episode, the season and
  episode guessed from it, when both are guessed, are those of the video.
\<close>

fun season_episode_agree :: "video \<Rightarrow> guess \<Rightarrow> bool" where
  "season_episode_agree (Episode n sr se ep y) g =
     (case (map_of g ''season'', map_of g ''episode'') of
        (Some gs, Some ge) \<Rightarrow>
          (case se of None \<Rightarrow> False | Some a \<Rightarrow> gs = GInt a) \<and>
          (case ep of None \<Rightarrow> False | Some b \<Rightarrow> ge = GInt b)
      | _ \<Rightarrow> True)"
| "season_episode_agree (Movie n t y) g = True"

definition candidate :: "libs \<Rightarrow> video \<Rightarrow> string \<Rightarrow> bool" where
  "candidate L v nm =
     (\<not> prefix ''.'' (basename nm) \<and>
      (\<exists>e \<in> set (SUBTITLE_EXTENSIONS L). e \<noteq> ''.txt'' \<and> suffix e (lower nm)) \<and>
      season_episode_agree v (guess_name L nm))"

subsection \<open>A small site\<close>

text \<open>Concrete libraries, networks and states, on which the theorems are instantiated.\<close>

definition demo_archive :: archive where
  "demo_archive =
     \<lparr>namelist = [''.hidden.srt'', ''notes.txt'', ''Show.S01E03.srt'', ''Show.S01E02.SRT'',
                  ''extras/Show.S01E02.720p.srt'', ''Show.srt''],
      read = (\<lambda>nm. ''bytes of '' @ nm)\<rparr>"

definition other_archive :: archive where
  "other_archive =
     \<lparr>namelist = [''notes.txt'', ''.Show.S01E02.srt'', ''Show.S01E03.srt'', ''Show.srt''],
      read = (\<lambda>nm. ''bytes of '' @ nm)\<rparr>"

definition demo_libs :: libs where
  "demo_libs =
     \<lparr>TOKEN_RE_search = (\<lambda>t. if py_in ''csrf-token'' t then Some ''tok'' else None),
      soup_result_links =
        (\<lambda>t. if py_in ''results'' t
             then [''/legendas/info/1'', ''/sobre'', ''https://pipocas.tv/legendas/info/2'']
             else []),
      soup_title_span = (\<lambda>t. Some (takeWhile (\<lambda>c. c \<noteq> CHR '' '') t)),
      soup_a_hrefs = (\<lambda>t. [''/sobre'', ''/legendas/download/77'']),
      download_re_search =
        (\<lambda>h. if startswith h ''/legendas/download/'' then Some (drop 19 h) else None),
      soup_hits_div = (\<lambda>t. if py_in ''E02'' t then Some ''250'' else Some ''90''),
      soup_color_span = (\<lambda>t. None),
      soup_rating_h2 = (\<lambda>t. if py_in ''E02'' t then Some ''4/5'' else Some ''0/5''),
      rating_re_search = (\<lambda>t. Some (takeWhile (\<lambda>c. c \<noteq> CHR ''/'') t)),
      py_int = (\<lambda>x. map_of [(''0'', 0), (''4'', 4), (''90'', 90), (''250'', 250)] x),
      strip = (\<lambda>x. x),
      guessit =
        (\<lambda>x t. if py_in ''S01E02'' x then Some [(''season'', GInt 1), (''episode'', GInt 2)]
               else if py_in ''S01E03'' x then Some [(''season'', GInt 1), (''episode'', GInt 3)]
               else None),
      guess_matches =
        (\<lambda>v g. (if map_of g ''season'' = Some (GInt 1) then [''season''] else []) @
               (if map_of g ''episode'' = Some (GInt 2) then [''episode''] else [])),
      get_scores = (\<lambda>v. [(''season'', 30), (''episode'', 30), (''series'', 180)]),
      SUBTITLE_EXTENSIONS = [''.srt'', ''.sub'', ''.smi'', ''.txt'', ''.ssa'', ''.ass'', ''.mpl''],
      RarFile = (\<lambda>d. other_archive),
      ZipFile = (\<lambda>d. demo_archive),
      fix_line_ending = (\<lambda>d. d),
      normalize = (\<lambda>x. x),
      default_headers = [(''User-Agent'', ''python-requests'')],
      SZ_USER_AGENT = None\<rparr>"

definition page :: "nat \<Rightarrow> string \<Rightarrow> bytes \<Rightarrow> response option" where
  "page code t c = Some \<lparr>status_code = code, resp_text = t, resp_content = c\<rparr>"

definition demo_net :: network where
  "demo_net n sid rq =
     (case rq of
        GET url ps \<Rightarrow>
          if url = LOGIN_URL then page 200 ''<meta name=\"csrf-token\" content=\"tok\">'' []
          else if url = SEARCH_URL then page 200 ''results'' ''results''
          else if py_in ''/info/1'' url then page 200 ''Show.S01E03.720p 0/5'' []
          else if py_in ''/info/2'' url then page 200 ''Show.S01E02.720p 4/5'' []
          else page 200 ''PK'' ''PK-zip''
      | POST url ps \<Rightarrow> page 200 ''Bem-vindo'' [])"

text \<open>A site that answers every request with the same file.\<close>

definition file_net :: "bytes \<Rightarrow> network" where
  "file_net data n sid rq = page 200 data data"

text \<open>
  A site that is down, a site whose login form fails, a site that refuses the
  password, and a site that has dropped the login.
\<close>

definition down_net :: network where
  "down_net n sid rq = page 503 ''Service Unavailable'' ''Service Unavailable''"



definition logged_out_net :: network where
  "logged_out_net n sid rq = page 200 CRIA CRIA"

definition demo_state :: state where
  "demo_state =
     \<lparr>username = Some ''u'', password = Some ''p'', session = Some 0,
      sessions = [\<lparr>headers = [], closed = False\<rparr>], log = [], slept = 0\<rparr>"


definition new_state :: state where
  "new_state =
     \<lparr>username = None, password = None, session = None, sessions = [], log = [], slept = 0\<rparr>"

definition demo_video :: video where
  "demo_video = Episode (Some ''/tv/Show.S01E02.mkv'') (Some ''Show'') (Some 1) (Some 2) None"



definition por :: language where "por = \<lparr>alpha3 = ''por'', country = None\<rparr>"
definition por_XX :: language where "por_XX = \<lparr>alpha3 = ''por'', country = Some ''XX''\<rparr>"
definition por_BR :: language where "por_BR = \<lparr>alpha3 = ''por'', country = Some ''BR''\<rparr>"
definition eng :: language where "eng = \<lparr>alpha3 = ''eng'', country = Some ''US''\<rparr>"
definition deu :: language where "deu = \<lparr>alpha3 = ''deu'', country = None\<rparr>"

definition demo_sub :: subtitle where
  "demo_sub = PipocasSubtitle por demo_video ''77'' (Some ''Show.S01E02.720p'') (Some 250) None (Some 3)"



section \<open>Properties\<close>

subsection \<open>String tests\<close>

lemma startswith_prefix: "startswith s p = prefix p s"
  by (induction s p rule: startswith.induct) auto

lemma endswith_suffix: "endswith s p = suffix p s"
  by (simp add: endswith_def startswith_prefix suffix_to_prefix)


subsection \<open>Languages\<close>

text \<open>
  C9. \<^verbatim>\<open>get_pipocas_language\<close> returns the entry of the map for (alpha3, country) when
  there is one, otherwise the entry for (alpha3, None), which is \<^verbatim>\<open>None\<close> when that is
  missing too; and when it returns \<^verbatim>\<open>None\<close>, \<^verbatim>\<open>_search_language\<close> returns the empty
  list and leaves the state as it was: no request is sent.
\<close>

theorem get_pipocas_language_fallback:
  "(\<forall>x. map_of PIPOCAS_LANGUAGE_MAP (alpha3 l, country l) = Some x \<longrightarrow>
        get_pipocas_language l = Some x)
   \<and> (map_of PIPOCAS_LANGUAGE_MAP (alpha3 l, country l) = None \<longrightarrow>
        get_pipocas_language l = map_of PIPOCAS_LANGUAGE_MAP (alpha3 l, None))
   \<and> (get_pipocas_language l = None \<longrightarrow> search_language L net v l s = (Inr [], s))"
  by (simp add: get_pipocas_language_def search_language_def)

theorem get_pipocas_language_fallback_witness:
  "get_pipocas_language por_BR = Some ''brasileiro''
   \<and> get_pipocas_language por_XX = Some ''portugues''
   \<and> get_pipocas_language deu = None
   \<and> search_language demo_libs demo_net demo_video deu demo_state = (Inr [], demo_state)"
proof -
  have a: "map_of PIPOCAS_LANGUAGE_MAP (alpha3 por_BR, country por_BR) = Some ''brasileiro''"
    by (simp add: PIPOCAS_LANGUAGE_MAP_def por_BR_def)
  have b: "map_of PIPOCAS_LANGUAGE_MAP (alpha3 por_XX, country por_XX) = None"
    by (simp add: PIPOCAS_LANGUAGE_MAP_def por_XX_def)
  have c: "map_of PIPOCAS_LANGUAGE_MAP (alpha3 por_XX, None) = Some ''portugues''"
    by (simp add: PIPOCAS_LANGUAGE_MAP_def por_XX_def)
  have d: "get_pipocas_language deu = None"
    by (simp add: get_pipocas_language_def PIPOCAS_LANGUAGE_MAP_def deu_def)
  show ?thesis
    using a b c d
      get_pipocas_language_fallback [of por_BR demo_libs demo_net demo_video demo_state]
      get_pipocas_language_fallback [of por_XX demo_libs demo_net demo_video demo_state]
      get_pipocas_language_fallback [of deu demo_libs demo_net demo_video demo_state]
    by simp
qed

subsection \<open>Credentials\<close>

text \<open>
  C5. The constructor raises \<^verbatim>\<open>ConfigurationError\<close> whenever exactly one of username
  and password is set (is neither \<^verbatim>\<open>None\<close> nor empty), and \<^verbatim>\<open>initialize\<close> raises
  \<^verbatim>\<open>ConfigurationError\<close> whenever one of them is missing, with the state as it was:
  no session has been created and no request sent.
\<close>

theorem init_initialize_ConfigurationError:
  "(truthy u \<noteq> truthy p \<longrightarrow> init u p = Inl ConfigurationError)
   \<and> (\<not> truthy (username s) \<or> \<not> truthy (password s) \<longrightarrow>
        initialize L net s = (Inl ConfigurationError, s))"
  by (auto simp add: init_def initialize_def)

theorem init_initialize_ConfigurationError_witness:
  "truthy (Some ''u'') \<noteq> truthy None
   \<and> init (Some ''u'') None = Inl ConfigurationError
   \<and> init None (Some ''p'') = Inl ConfigurationError
   \<and> init (Some []) (Some ''p'') = Inl ConfigurationError
   \<and> \<not> truthy (username new_state)
   \<and> initialize demo_libs demo_net new_state = (Inl ConfigurationError, new_state)"
  using init_initialize_ConfigurationError [of "Some ''u''" None new_state demo_libs demo_net]
    init_initialize_ConfigurationError [of None "Some ''p''" new_state demo_libs demo_net]
    init_initialize_ConfigurationError [of "Some []" "Some ''p''" new_state demo_libs demo_net]
  by (simp add: new_state_def)

subsection \<open>The order of the results\<close>

lemma sort_reverse_sorted: "sorted (rev (map k (sort_reverse k xs)))"
  by (simp add: sort_reverse_def rev_map)

lemma sorted_rev_wrt:
  "sorted (rev ys) \<Longrightarrow> sorted_wrt (\<lambda>a b. b \<le> a) ys"
  by (metis sorted_wrt_rev rev_rev_ident)

lemma sort_reverse_descending:
  "sorted_wrt (\<lambda>a b. k b \<le> k a) (sort_reverse k xs)"
proof -
  have "sorted_wrt (\<lambda>a b. b \<le> a) (map k (sort_reverse k xs))"
    using sort_reverse_sorted [of k xs] by (rule sorted_rev_wrt)
  then show ?thesis by (simp add: sorted_wrt_map)
qed

lemma sort_key_sub_le:
  "sort_key_sub b \<le> sort_key_sub a \<longleftrightarrow>
     user_score b < user_score a \<or> (user_score b = user_score a \<and> hits b \<le> hits a)"
  by (auto simp add: sort_key_sub_def less_eq_prod_def)

text \<open>
  C8. The list that \<^verbatim>\<open>list_subtitles\<close> returns is in non-increasing lexicographic
  order of (user_score, hits): each subtitle has a higher user score than every later
  one, or the same user score and at least as many hits.
\<close>

theorem list_subtitles_sorted:
  assumes "list_subtitles L net v languages s = (Inr subs, s')"
  shows "sorted_wrt
           (\<lambda>a b. user_score b < user_score a \<or> (user_score b = user_score a \<and> hits b \<le> hits a))
           subs"
proof -
  obtain all_subs where "subs = sort_reverse sort_key_sub all_subs"
    using assms by (auto simp add: list_subtitles_def split: prod.splits sum.splits)
  then show ?thesis
    using sort_reverse_descending [of sort_key_sub all_subs] by (simp add: sort_key_sub_le)
qed

theorem list_subtitles_sorted_witness:
  "\<exists>subs s'. list_subtitles demo_libs demo_net demo_video [eng, deu, por] demo_state = (Inr subs, s')
     \<and> map sort_key_sub subs = [(3, 250), (3, 250), (0, 90), (0, 90)]
     \<and> map language subs = [eng, por, eng, por]
     \<and> sorted_wrt
           (\<lambda>a b. user_score b < user_score a \<or> (user_score b = user_score a \<and> hits b \<le> hits a))
           subs"
proof -
  have "case list_subtitles demo_libs demo_net demo_video [eng, deu, por] demo_state of
          (Inr subs, s') \<Rightarrow> map sort_key_sub subs = [(3, 250), (3, 250), (0, 90), (0, 90)]
              \<and> map language subs = [eng, por, eng, por]
        | (Inl e, s') \<Rightarrow> False"
    by code_simp
  then obtain subs s' where
    r: "list_subtitles demo_libs demo_net demo_video [eng, deu, por] demo_state = (Inr subs, s')"
    and k: "map sort_key_sub subs = [(3, 250), (3, 250), (0, 90), (0, 90)]"
       "map language subs = [eng, por, eng, por]"
    by (auto split: prod.splits sum.splits)
  from list_subtitles_sorted [OF r] r k show ?thesis
    by (intro exI [where x = subs] exI [where x = s']) simp
qed

subsection \<open>Stars\<close>




subsection \<open>Login\<close>

lemma session_request_Some:
  "session s = Some sid \<Longrightarrow>
   session_request net rq s =
     ((case net (length (log s)) sid rq of None \<Rightarrow> Inl RequestException | Some res \<Rightarrow> Inr res),
      s\<lparr>log := log s @ [(sid, rq)]\<rparr>)"
  by (simp add: session_request_def split: option.splits)





subsection \<open>The attributes of the provider\<close>















subsection \<open>The requests of a search\<close>

lemma attributes_session: "attributes s' = attributes s \<Longrightarrow> session s' = session s"
  by (simp add: attributes_def)














subsection \<open>Matches\<close>












subsection \<open>Download\<close>

lemma startswith_take:
  assumes "length p \<le> n"
  shows "startswith (take n d) p = prefix p d"
proof
  assume "startswith (take n d) p"
  then have "prefix p (take n d)" by (simp add: startswith_prefix)
  then show "prefix p d" using take_is_prefix prefix_order.trans by blast
next
  assume a: "prefix p d"
  then have "length p \<le> length d" by (rule prefix_length_le)
  with assms have "length p \<le> length (take n d)" by simp
  with a take_is_prefix [of n d] have "prefix p (take n d)"
    by (rule prefix_length_prefix)
  then show "startswith (take n d) p" by (simp add: startswith_prefix)
qed

lemma download_subtitle_body:
  assumes "session s = Some sid"
    and "net (length (log s)) sid (GET (page_link sub) []) = Some res"
    and "\<not> raise_for_status res" and "\<not> py_in CRIA (resp_text res)"
    and "resp_content res \<noteq> []"
  shows "download_subtitle L net sub s =
     (if prefix ''Rar!'' (resp_content res)
        then from_archive L (RarFile L (resp_content res)) sub
               (s\<lparr>log := log s @ [(sid, GET (page_link sub) [])]\<rparr>)
      else if prefix ''PK'' (resp_content res)
        then from_archive L (ZipFile L (resp_content res)) sub
               (s\<lparr>log := log s @ [(sid, GET (page_link sub) [])]\<rparr>)
      else (Inr (normalize L (sub\<lparr>content := Some (fix_line_ending L (resp_content res))\<rparr>)),
            s\<lparr>log := log s @ [(sid, GET (page_link sub) [])]\<rparr>))"
proof -
  have r: "startswith (take 4 (resp_content res)) ''Rar!'' = prefix ''Rar!'' (resp_content res)"
    by (rule startswith_take) simp
  have z: "startswith (take 4 (resp_content res)) ''PK'' = prefix ''PK'' (resp_content res)"
    by (rule startswith_take) simp
  show ?thesis
    using assms(2-5)
    by (simp add: download_subtitle_def session_request_Some [OF assms(1)] r z)
qed


text \<open>
  C1, as amended. When the download request is answered with a status below 400, a
  text that does not contain \<^verbatim>\<open>Cria uma conta\<close> and a body that is not empty,
  \<^verbatim>\<open>download_subtitle\<close> decides by the first bytes of the body: a body that starts
  with \<^verbatim>\<open>Rar!\<close> is opened as a RAR archive, otherwise a body that starts with
  \<^verbatim>\<open>PK\<close> is opened as a ZIP archive, and otherwise the body itself, after
  \<^verbatim>\<open>fix_line_ending\<close> and \<^verbatim>\<open>normalize\<close>, is the content of the subtitle that is
  returned, and no archive is opened.
\<close>

theorem download_subtitle_magic_bytes:
  assumes "session s = Some sid"
    and "net (length (log s)) sid (GET (page_link sub) []) = Some res"
    and "\<not> raise_for_status res" and "\<not> py_in CRIA (resp_text res)"
    and "resp_content res \<noteq> []"
  shows "download_subtitle L net sub s =
     (if prefix ''Rar!'' (resp_content res)
        then from_archive L (RarFile L (resp_content res)) sub
               (s\<lparr>log := log s @ [(sid, GET (page_link sub) [])]\<rparr>)
      else if prefix ''PK'' (resp_content res)
        then from_archive L (ZipFile L (resp_content res)) sub
               (s\<lparr>log := log s @ [(sid, GET (page_link sub) [])]\<rparr>)
      else (Inr (normalize L (sub\<lparr>content := Some (fix_line_ending L (resp_content res))\<rparr>)),
            s\<lparr>log := log s @ [(sid, GET (page_link sub) [])]\<rparr>))"
  using assms by (rule download_subtitle_body)

theorem download_subtitle_magic_bytes_witness:
  "fst (download_subtitle demo_libs (file_net ''1 00:00:01,000 --> 00:00:02,000 Ola'') demo_sub
          demo_state)
     = Inr (demo_sub\<lparr>content := Some ''1 00:00:01,000 --> 00:00:02,000 Ola''\<rparr>)
   \<and> download_subtitle demo_libs (file_net ''PK-zip'') demo_sub demo_state
     = from_archive demo_libs demo_archive demo_sub
         (demo_state\<lparr>log := [(0, GET (page_link demo_sub) [])]\<rparr>)
   \<and> download_subtitle demo_libs (file_net ''Rar!-rar'') demo_sub demo_state
     = from_archive demo_libs other_archive demo_sub
         (demo_state\<lparr>log := [(0, GET (page_link demo_sub) [])]\<rparr>)"
proof -
  have s: "session demo_state = Some 0" "log demo_state = []"
    by (simp_all add: demo_state_def)
  have n: "\<And>d. file_net d (length (log demo_state)) 0 (GET (page_link demo_sub) [])
      = Some \<lparr>status_code = 200, resp_text = d, resp_content = d\<rparr>"
    by (simp add: file_net_def page_def)
  have ok: "\<And>d. \<not> raise_for_status \<lparr>status_code = 200, resp_text = d, resp_content = d\<rparr>"
    by (simp add: raise_for_status_def)
  have l: "RarFile demo_libs = (\<lambda>d. other_archive)" "ZipFile demo_libs = (\<lambda>d. demo_archive)"
    "fix_line_ending demo_libs = (\<lambda>d. d)" "normalize demo_libs = (\<lambda>x. x)"
    by (simp_all add: demo_libs_def)
  have c1: "\<not> py_in CRIA
      (resp_text \<lparr>status_code = 200, resp_text = ''1 00:00:01,000 --> 00:00:02,000 Ola'',
                  resp_content = ''1 00:00:01,000 --> 00:00:02,000 Ola''\<rparr>)"
    by (simp add: CRIA_def)
  have c2: "\<not> py_in CRIA
      (resp_text \<lparr>status_code = 200, resp_text = ''PK-zip'', resp_content = ''PK-zip''\<rparr>)"
    by (simp add: CRIA_def)
  have c3: "\<not> py_in CRIA
      (resp_text \<lparr>status_code = 200, resp_text = ''Rar!-rar'', resp_content = ''Rar!-rar''\<rparr>)"
    by (simp add: CRIA_def)
  show ?thesis
    using download_subtitle_magic_bytes
            [where net = "file_net ''1 00:00:01,000 --> 00:00:02,000 Ola''" and L = demo_libs,
             OF s(1) n ok c1]
      download_subtitle_magic_bytes
            [where net = "file_net ''PK-zip''" and L = demo_libs, OF s(1) n ok c2]
      download_subtitle_magic_bytes
            [where net = "file_net ''Rar!-rar''" and L = demo_libs, OF s(1) n ok c3]
    by (simp add: s(2) l)
qed

text \<open>
  The claim as stated fails for a body that is not empty when the site answers with
  its login page: the body starts with neither \<^verbatim>\<open>Rar!\<close> nor \<^verbatim>\<open>PK\<close>, and
  \<^verbatim>\<open>AuthenticationError\<close> is raised where the claim returns the subtitle with that
  body. A body with an error status raises \<^verbatim>\<open>HTTPError\<close> likewise.
\<close>

theorem download_subtitle_login_page_counterexample:
  "logged_out_net 0 0 (GET (page_link demo_sub) []) = page 200 CRIA CRIA
   \<and> CRIA \<noteq> []
   \<and> \<not> startswith CRIA ''Rar!''
   \<and> \<not> startswith CRIA ''PK''
   \<and> fst (download_subtitle demo_libs logged_out_net demo_sub demo_state) = Inl AuthenticationError
   \<and> fst (download_subtitle demo_libs down_net demo_sub demo_state) = Inl HTTPError"
  by (simp add: download_subtitle_def session_request_def demo_state_def logged_out_net_def
      down_net_def page_def raise_for_status_def CRIA_def)

subsection \<open>The best entry of an archive\<close>

text \<open>The tests of the loop on one entry.\<close>

lemma py_ne_agree:
  "(\<not> py_ne g x) = (case x of None \<Rightarrow> False | Some a \<Rightarrow> g = GInt a)"
  by (simp add: py_ne_def split: option.splits)

lemma episode_mismatch_agree: "(\<not> episode_mismatch v g) = season_episode_agree v g"
  by (cases v) (auto simp add: py_ne_def split: option.splits)

lemma endswith_any_allowed:
  assumes "distinct (SUBTITLE_EXTENSIONS L)"
  shows "endswith_any s (allowed_exts L) =
     (\<exists>e \<in> set (SUBTITLE_EXTENSIONS L). e \<noteq> ''.txt'' \<and> suffix e s)"
  using assms by (auto simp add: endswith_any_def allowed_exts_def endswith_suffix)

lemma candidate_tests:
  assumes "distinct (SUBTITLE_EXTENSIONS L)"
  shows "candidate L v nm =
     (\<not> startswith (basename nm) ''.'' \<and> endswith_any (lower nm) (allowed_exts L)
      \<and> \<not> episode_mismatch v (guess_name L nm))"
  by (simp add: candidate_def startswith_prefix endswith_any_allowed [OF assms]
      episode_mismatch_agree)

lemma best_loop_step:
  assumes "distinct (SUBTITLE_EXTENSIONS L)"
  shows "best_loop L v (nm # ns) bn bs =
     (if candidate L v nm \<and> bs < entry_score L v nm
      then best_loop L v ns (Some nm) (entry_score L v nm)
      else best_loop L v ns bn bs)"
  by (simp add: candidate_tests [OF assms])

lemma best_loop_result:
  assumes "distinct (SUBTITLE_EXTENSIONS L)"
    and "best_loop L v ns bn bs = (bn', bs')"
  shows "bs \<le> bs'
     \<and> (\<forall>nm \<in> set ns. candidate L v nm \<longrightarrow> entry_score L v nm \<le> bs')
     \<and> ((bn' = bn \<and> bs' = bs)
         \<or> (\<exists>nm \<in> set ns. candidate L v nm \<and> bn' = Some nm \<and> bs' = entry_score L v nm
               \<and> bs < bs'))"
  using assms(2)
proof (induction ns arbitrary: bn bs)
  case Nil
  then show ?case by simp
next
  case (Cons nm ns)
  show ?case
  proof (cases "candidate L v nm \<and> bs < entry_score L v nm")
    case True
    with Cons.prems have "best_loop L v ns (Some nm) (entry_score L v nm) = (bn', bs')"
      by (simp add: best_loop_step [OF assms(1)] del: best_loop.simps)
    from Cons.IH [OF this] True show ?thesis by fastforce
  next
    case False
    with Cons.prems have "best_loop L v ns bn bs = (bn', bs')"
      by (simp add: best_loop_step [OF assms(1)] del: best_loop.simps)
    from Cons.IH [OF this] False show ?thesis by fastforce
  qed
qed


lemma extract_best_from_archive_cases:
  assumes "distinct (SUBTITLE_EXTENSIONS L)"
  shows "(extract_best_from_archive L a sub = None
          \<and> (\<forall>nm \<in> set (namelist a). candidate L (video sub) nm \<longrightarrow>
                entry_score L (video sub) nm \<le> 0))
     \<or> (\<exists>nm \<in> set (namelist a). candidate L (video sub) nm
            \<and> extract_best_from_archive L a sub = Some (read a nm)
            \<and> 0 < entry_score L (video sub) nm
            \<and> (\<forall>m \<in> set (namelist a). candidate L (video sub) m \<longrightarrow>
                  entry_score L (video sub) m \<le> entry_score L (video sub) nm))"
proof -
  obtain bn' bs' where b: "best_loop L (video sub) (namelist a) None (- 1) = (bn', bs')"
    by (cases "best_loop L (video sub) (namelist a) None (- 1)")
  from best_loop_result [OF assms b]
  have le: "\<forall>nm \<in> set (namelist a). candidate L (video sub) nm \<longrightarrow>
              entry_score L (video sub) nm \<le> bs'"
    and alt: "(bn' = None \<and> bs' = - 1)
       \<or> (\<exists>nm \<in> set (namelist a). candidate L (video sub) nm \<and> bn' = Some nm
             \<and> bs' = entry_score L (video sub) nm \<and> - 1 < bs')"
    by simp_all
  show ?thesis
  proof (cases "bn' = None \<or> bs' \<le> 0")
    case True
    then have "extract_best_from_archive L a sub = None"
      using b by (auto simp add: extract_best_from_archive_def split: option.splits)
    moreover have "\<forall>nm \<in> set (namelist a). candidate L (video sub) nm \<longrightarrow>
        entry_score L (video sub) nm \<le> 0"
      using True le alt by fastforce
    ultimately show ?thesis by simp
  next
    case False
    then obtain nm where nm: "nm \<in> set (namelist a)" "candidate L (video sub) nm"
      "bn' = Some nm" "bs' = entry_score L (video sub) nm" "0 < bs'"
      using alt by auto
    have "extract_best_from_archive L a sub = Some (read a nm)"
      using b nm(3,5) by (simp add: extract_best_from_archive_def)
    with nm le show ?thesis by auto
  qed
qed

text \<open>
  C2. Among the candidates of an archive, \<^verbatim>\<open>_extract_best_from_archive\<close> takes an entry
  with the highest sum of scores of its matches and returns the bytes of that entry.
  It returns \<^verbatim>\<open>None\<close> exactly when no candidate has a score above 0, which covers an
  archive without candidates, and \<^verbatim>\<open>download_subtitle\<close> then raises
  \<^verbatim>\<open>ServiceUnavailable\<close>.
\<close>

theorem extract_best_from_archive_selects:
  assumes "distinct (SUBTITLE_EXTENSIONS L)"
  shows "(extract_best_from_archive L a sub = None \<longleftrightarrow>
            (\<forall>nm \<in> set (namelist a). candidate L (video sub) nm \<longrightarrow>
               entry_score L (video sub) nm \<le> 0))
     \<and> (\<forall>b. extract_best_from_archive L a sub = Some b \<longrightarrow>
            (\<exists>nm \<in> set (namelist a). candidate L (video sub) nm \<and> b = read a nm
               \<and> 0 < entry_score L (video sub) nm
               \<and> (\<forall>m \<in> set (namelist a). candidate L (video sub) m \<longrightarrow>
                     entry_score L (video sub) m \<le> entry_score L (video sub) nm)))
     \<and> (\<forall>net sid res.
            session s = Some sid
            \<and> net (length (log s)) sid (GET (page_link sub) []) = Some res
            \<and> \<not> raise_for_status res \<and> \<not> py_in CRIA (resp_text res)
            \<and> resp_content res \<noteq> []
            \<and> (prefix ''Rar!'' (resp_content res) \<and> a = RarFile L (resp_content res)
                \<or> \<not> prefix ''Rar!'' (resp_content res) \<and> prefix ''PK'' (resp_content res)
                    \<and> a = ZipFile L (resp_content res))
            \<and> extract_best_from_archive L a sub = None \<longrightarrow>
              fst (download_subtitle L net sub s) = Inl ServiceUnavailable)"
proof (intro conjI allI impI)
  note c = extract_best_from_archive_cases [OF assms, of a sub]
  show "extract_best_from_archive L a sub = None \<longleftrightarrow>
            (\<forall>nm \<in> set (namelist a). candidate L (video sub) nm \<longrightarrow>
               entry_score L (video sub) nm \<le> 0)"
    using c by fastforce
  show "\<exists>nm \<in> set (namelist a). candidate L (video sub) nm \<and> b = read a nm
               \<and> 0 < entry_score L (video sub) nm
               \<and> (\<forall>m \<in> set (namelist a). candidate L (video sub) m \<longrightarrow>
                     entry_score L (video sub) m \<le> entry_score L (video sub) nm)"
    if "extract_best_from_archive L a sub = Some b" for b
    using c that by auto
  show "fst (download_subtitle L net sub s) = Inl ServiceUnavailable"
    if h: "session s = Some sid
            \<and> net (length (log s)) sid (GET (page_link sub) []) = Some res
            \<and> \<not> raise_for_status res \<and> \<not> py_in CRIA (resp_text res)
            \<and> resp_content res \<noteq> []
            \<and> (prefix ''Rar!'' (resp_content res) \<and> a = RarFile L (resp_content res)
                \<or> \<not> prefix ''Rar!'' (resp_content res) \<and> prefix ''PK'' (resp_content res)
                    \<and> a = ZipFile L (resp_content res))
            \<and> extract_best_from_archive L a sub = None"
    for net sid res
  proof -
    from h have d: "download_subtitle L net sub s =
        from_archive L a sub (s\<lparr>log := log s @ [(sid, GET (page_link sub) [])]\<rparr>)"
      using download_subtitle_body [of s sid net sub res L] by auto
    from h have "extract_best_from_archive L a sub = None" by simp
    then show ?thesis by (simp add: d from_archive_def)
  qed
qed


theorem extract_best_from_archive_selects_witness:
  "distinct (SUBTITLE_EXTENSIONS demo_libs)
   \<and> extract_best_from_archive demo_libs demo_archive demo_sub = Some ''bytes of Show.S01E02.SRT''
   \<and> (\<exists>nm. nm \<in> set (namelist demo_archive) \<and> candidate demo_libs (video demo_sub) nm
         \<and> read demo_archive nm = ''bytes of Show.S01E02.SRT''
         \<and> 0 < entry_score demo_libs (video demo_sub) nm
         \<and> entry_score demo_libs (video demo_sub) ''extras/Show.S01E02.720p.srt''
             \<le> entry_score demo_libs (video demo_sub) nm)
   \<and> extract_best_from_archive demo_libs other_archive demo_sub = None
   \<and> candidate demo_libs (video demo_sub) ''Show.srt''
   \<and> entry_score demo_libs (video demo_sub) ''Show.srt'' \<le> 0
   \<and> fst (download_subtitle demo_libs (file_net ''Rar!-rar'') demo_sub demo_state)
       = Inl ServiceUnavailable"
proof -
  have d: "distinct (SUBTITLE_EXTENSIONS demo_libs)"
    by (simp add: demo_libs_def)
  note A = extract_best_from_archive_selects [OF d, of demo_archive demo_sub demo_state]
  note B = extract_best_from_archive_selects [OF d, of other_archive demo_sub demo_state]
  have e1: "extract_best_from_archive demo_libs demo_archive demo_sub
      = Some ''bytes of Show.S01E02.SRT''"
    by code_simp
  have e2: "extract_best_from_archive demo_libs other_archive demo_sub = None"
    by code_simp
  have c1: "candidate demo_libs (video demo_sub) ''extras/Show.S01E02.720p.srt''"
    by code_simp
  have c2: "candidate demo_libs (video demo_sub) ''Show.srt''"
    by code_simp
  have m1: "''extras/Show.S01E02.720p.srt'' \<in> set (namelist demo_archive)"
    by (simp add: demo_archive_def)
  have m2: "''Show.srt'' \<in> set (namelist other_archive)"
    by (simp add: other_archive_def)
  from A [THEN conjunct2, THEN conjunct1] e1 obtain nm where
    nm: "nm \<in> set (namelist demo_archive)" "candidate demo_libs (video demo_sub) nm"
      "''bytes of Show.S01E02.SRT'' = read demo_archive nm"
      "0 < entry_score demo_libs (video demo_sub) nm"
      "\<forall>m \<in> set (namelist demo_archive). candidate demo_libs (video demo_sub) m \<longrightarrow>
         entry_score demo_libs (video demo_sub) m \<le> entry_score demo_libs (video demo_sub) nm"
    by blast
  from nm(5) m1 c1 have
    le: "entry_score demo_libs (video demo_sub) ''extras/Show.S01E02.720p.srt''
           \<le> entry_score demo_libs (video demo_sub) nm"
    by blast
  from B [THEN conjunct1] e2 m2 c2 have
    z: "entry_score demo_libs (video demo_sub) ''Show.srt'' \<le> 0"
    by blast
  have s: "session demo_state = Some 0" "log demo_state = []"
    by (simp_all add: demo_state_def)
  have n: "file_net ''Rar!-rar'' (length (log demo_state)) 0 (GET (page_link demo_sub) [])
      = Some \<lparr>status_code = 200, resp_text = ''Rar!-rar'', resp_content = ''Rar!-rar''\<rparr>"
    by (simp add: file_net_def page_def)
  have ok: "\<not> raise_for_status \<lparr>status_code = 200, resp_text = ''Rar!-rar'', resp_content = ''Rar!-rar''\<rparr>"
    "\<not> py_in CRIA (resp_text \<lparr>status_code = 200, resp_text = ''Rar!-rar'', resp_content = ''Rar!-rar''\<rparr>)"
    "prefix ''Rar!'' (resp_content \<lparr>status_code = 200, resp_text = ''Rar!-rar'', resp_content = ''Rar!-rar''\<rparr>)"
    "other_archive = RarFile demo_libs (resp_content \<lparr>status_code = 200, resp_text = ''Rar!-rar'', resp_content = ''Rar!-rar''\<rparr>)"
    by (simp_all add: raise_for_status_def CRIA_def demo_libs_def)
  from B [THEN conjunct2, THEN conjunct2] s(1) n ok e2 have
    r: "fst (download_subtitle demo_libs (file_net ''Rar!-rar'') demo_sub demo_state)
          = Inl ServiceUnavailable"
    by (metis response.select_convs(3) list.distinct(1))
  from nm(1,2,3,4) le have
    x: "\<exists>nm. nm \<in> set (namelist demo_archive) \<and> candidate demo_libs (video demo_sub) nm
         \<and> read demo_archive nm = ''bytes of Show.S01E02.SRT''
         \<and> 0 < entry_score demo_libs (video demo_sub) nm
         \<and> entry_score demo_libs (video demo_sub) ''extras/Show.S01E02.720p.srt''
             \<le> entry_score demo_libs (video demo_sub) nm"
    by (intro exI [where x = nm]) simp
  from d e1 x e2 c2 z r show ?thesis by (intro conjI)
qed

end
